theory Spec2Isabelle
  imports Main
begin

section \<open>Paginated sync-job orchestration of the elba connectors\<close>

text \<open>
  The development embeds the page sync worker \<^verbatim>\<open>syncUsers\<close> of the Monday connector
  (\<^verbatim>\<open>apps/monday/src/inngest/functions/users/sync-users.ts\<close>), the Dropbox scheduler
  \<^verbatim>\<open>scheduleUserSync\<close> and the authorization middleware exercised by the GitHub
  connector's test-suite.

  Conventions of the embedding:
  \<^item> a JavaScript \<^verbatim>\<open>number\<close> that carries a page index or an epoch-millisecond
    timestamp is an \<^typ>\<open>int\<close> (fractions, infinities and \<^verbatim>\<open>NaN\<close> are not
    represented);
    \<^verbatim>\<open>number | null\<close> is \<^typ>\<open>int option\<close> with \<^term>\<open>None\<close> for \<^verbatim>\<open>null\<close>;
  \<^item> a thrown exception is the \<^term>\<open>Inl\<close> branch of a sum;
  \<^item> every call to an external collaborator (remote API, elba client, event
    emission) is recorded, in program order, in a list of effects that the
    function returns next to its result;
  \<^item> the calls of the elba client and \<^verbatim>\<open>step.sendEvent\<close> are recorded as returning;
    the remote page fetcher can fail;
  \<^item> \<^verbatim>\<open>step.run(id, f)\<close> is one execution of \<^verbatim>\<open>f\<close>: an invocation is a single attempt,
    and the retries of the dispatch layer are further invocations with the same
    payload.
\<close>

subsection \<open>Errors\<close>

text \<open>
  \<^verbatim>\<open>NonRetriableError\<close> (inngest) carries a message and an optional cause,
  \<^verbatim>\<open>RequestError\<close> (octokit) a message and the status of its optional response,
  \<^verbatim>\<open>MondayError\<close> (lines 113-122 of sync-users.ts) a message and the status of its
  optional response, \<^verbatim>\<open>RangeError\<close> (thrown by the built-in \<^verbatim>\<open>Date\<close>) and \<^verbatim>\<open>Error\<close> a
  message.
\<close>

datatype error =
    NonRetriableError string "error option"
  | RequestError string "nat option"
  | MondayError string "nat option"
  | RangeError string
  | Error string

subsection \<open>Data of the Monday worker\<close>

text \<open>
  The event payload \<^verbatim>\<open>SynchronizeUsers['data']\<close> (lines 15-23). Its first field,
  \<^verbatim>\<open>organisationId\<close>, is also the field that the scheduler reads from each
  organisation to sync, so it sits in a base record.
\<close>

record OrganisationRef =
  organisationId :: string

record SynchronizeUsers = OrganisationRef +
  region :: string
  isFirstSync :: bool
  syncStartedAt :: int
  page :: "int option"

text \<open>
  The fields of \<^verbatim>\<open>MondayUser\<close> that \<^verbatim>\<open>formatElbaUser\<close> reads (\<^verbatim>\<open>id\<close>, \<^verbatim>\<open>name\<close>,
  \<^verbatim>\<open>email\<close>) and the elba \<^verbatim>\<open>User\<close> it builds (\<^verbatim>\<open>id\<close>, \<^verbatim>\<open>displayName\<close>, \<^verbatim>\<open>email\<close>,
  \<^verbatim>\<open>additionalEmails\<close>). The field names carry a prefix where two records would share
  one.
\<close>

record MondayUser =
  monday_id :: string
  monday_name :: string
  monday_email :: string

record User =
  user_id :: string
  displayName :: string
  email :: string
  additionalEmails :: "string list"

definition formatElbaUser :: "MondayUser \<Rightarrow> User" where
  "formatElbaUser user =
     \<lparr>user_id = monday_id user, displayName = monday_name user,
      email = monday_email user, additionalEmails = []\<rparr>"

text \<open>
  What \<^verbatim>\<open>getUsers(token, page)\<close> resolves to: \<^verbatim>\<open>result.data.users\<close> and
  \<^verbatim>\<open>result.nextPage\<close>. The connector itself is a parameter of the worker.
\<close>

record GetUsersResult =
  users :: "MondayUser list"
  nextPage :: "int option"

type_synonym fetcher = "string \<Rightarrow> int option \<Rightarrow> error + GetUsersResult"

text \<open>
  Rows of the \<^verbatim>\<open>Organisation\<close> table: every connector's table has the primary key
  \<^verbatim>\<open>id\<close>; the Monday table also has the column \<^verbatim>\<open>token\<close>.
\<close>

record OrganisationRow =
  row_id :: string

record MondayOrganisation = OrganisationRow +
  token :: string

text \<open>
  The elba client is built from the payload's \<^verbatim>\<open>organisationId\<close> and \<^verbatim>\<open>region\<close>
  (lines 57-63); the remaining settings are constants of the deployment.
\<close>

record Elba =
  elba_organisationId :: string
  elba_region :: string

text \<open>
  The built-in \<^verbatim>\<open>Date\<close>. A date is its time value in milliseconds, or invalid
  (\<^term>\<open>None\<close>, the time value \<^verbatim>\<open>NaN\<close>). \<^verbatim>\<open>new Date(ms)\<close> clips the time: a number
  beyond 8.64e15 in absolute value gives the invalid date. \<^verbatim>\<open>new Date(date)\<close> copies
  the time value. \<^verbatim>\<open>toISOString()\<close> throws a \<^verbatim>\<open>RangeError\<close> on the invalid date;
  otherwise it returns the ISO-8601 text, which is represented by the instant it
  denotes.
\<close>

datatype Date = Date "int option"

datatype ISOString = ISOString int

definition in_Date_range :: "int \<Rightarrow> bool" where
  "in_Date_range ms = (\<bar>ms\<bar> \<le> 8640000000000000)"

definition new_Date_ms :: "int \<Rightarrow> Date" where
  "new_Date_ms ms = (if in_Date_range ms then Date (Some ms) else Date None)"

fun new_Date :: "Date \<Rightarrow> Date" where
  "new_Date (Date t) = Date t"

fun toISOString :: "Date \<Rightarrow> error + ISOString" where
  "toISOString (Date None) = Inl (RangeError ''Invalid time value'')"
| "toISOString (Date (Some t)) = Inr (ISOString t)"

subsection \<open>Effects\<close>

text \<open>
  \<^verbatim>\<open>getUsers(token, page)\<close>, \<^verbatim>\<open>elba.users.update({ users })\<close>,
  \<^verbatim>\<open>elba.users.delete({ syncedBefore })\<close>, \<^verbatim>\<open>step.sendEvent(id, { name, data })\<close> and
  \<^verbatim>\<open>elba.connectionStatus.update({ hasError })\<close>.
\<close>

datatype effect =
    GetUsers string "int option"
  | UsersUpdate Elba "User list"
  | UsersDelete Elba ISOString
  | SendEvent string string SynchronizeUsers
  | ConnectionStatusUpdate Elba bool

datatype status = ongoing | completed

subsection \<open>The worker \<^verbatim>\<open>syncUsers\<close>\<close>

text \<open>JavaScript truthiness of a value of type \<^verbatim>\<open>number | null\<close>.\<close>

fun truthy :: "int option \<Rightarrow> bool" where
  "truthy None = False"
| "truthy (Some n) = (n \<noteq> 0)"

text \<open>
  Step \<^verbatim>\<open>get-token\<close> (lines 66-75): select the token of the rows whose id is the
  organisation's, take the first, throw when there is none.
\<close>

definition get_token :: "'a MondayOrganisation_scheme list \<Rightarrow> string \<Rightarrow> error + string" where
  "get_token db oid =
     (case map token (filter (\<lambda>r. row_id r = oid) db) of
        [] \<Rightarrow> Inl (NonRetriableError (''Could not retrieve organisation with id='' @ oid) None)
      | organisation # _ \<Rightarrow> Inr organisation)"

text \<open>
  Step \<^verbatim>\<open>list-users\<close> (lines 77-88): fetch the page, send the formatted users to elba
  when there are any, return the next page.
\<close>

definition list_users ::
  "fetcher \<Rightarrow> Elba \<Rightarrow> string \<Rightarrow> int option \<Rightarrow> (error + int option) \<times> effect list" where
  "list_users getUsers elba tok pg =
     (case getUsers tok pg of
        Inl e \<Rightarrow> (Inl e, [GetUsers tok pg])
      | Inr result \<Rightarrow>
          (Inr (nextPage result),
           GetUsers tok pg #
             (if length (users result) > 0
              then [UsersUpdate elba (map formatElbaUser (users result))]
              else [])))"

text \<open>
  The handler (lines 53-112). In the step \<^verbatim>\<open>finalize\<close> (lines 105-107) the argument
  of \<^verbatim>\<open>elba.users.delete\<close> is evaluated first: when \<^verbatim>\<open>toISOString\<close> throws, the delete
  call is not made and the error leaves the handler.
\<close>

definition syncUsers ::
  "fetcher \<Rightarrow> 'a MondayOrganisation_scheme list \<Rightarrow> SynchronizeUsers
     \<Rightarrow> (error + status) \<times> effect list" where
  "syncUsers getUsers db event_data =
     (let syncStartedAt' = new_Date_ms (syncStartedAt event_data);
          elba = \<lparr>elba_organisationId = organisationId event_data,
                  elba_region = region event_data\<rparr>
      in case get_token db (organisationId event_data) of
           Inl e \<Rightarrow> (Inl e, [])
         | Inr tok \<Rightarrow>
             (case list_users getUsers elba tok (page event_data) of
                (Inl e, tr) \<Rightarrow> (Inl e, tr)
              | (Inr next, tr) \<Rightarrow>
                  if truthy next
                  then (Inr ongoing,
                        tr @ [SendEvent ''sync-users-page'' ''monday/users.page_sync.requested''
                                (event_data\<lparr>page := next\<rparr>)])
                  else (case toISOString (new_Date syncStartedAt') of
                          Inl e \<Rightarrow> (Inl e, tr)
                        | Inr syncedBefore \<Rightarrow>
                            (Inr completed, tr @ [UsersDelete elba syncedBefore]))))"


subsection \<open>Observing a run\<close>

text \<open>The upsert calls, delete calls and emitted payloads of a run, in program order.\<close>

fun upserts :: "effect list \<Rightarrow> (Elba \<times> User list) list" where
  "upserts [] = []"
| "upserts (UsersUpdate elba us # es) = (elba, us) # upserts es"
| "upserts (_ # es) = upserts es"

fun deletes :: "effect list \<Rightarrow> (Elba \<times> ISOString) list" where
  "deletes [] = []"
| "deletes (UsersDelete elba s # es) = (elba, s) # deletes es"
| "deletes (_ # es) = deletes es"

fun sent_events :: "effect list \<Rightarrow> SynchronizeUsers list" where
  "sent_events [] = []"
| "sent_events (SendEvent _ _ d # es) = d # sent_events es"
| "sent_events (_ # es) = sent_events es"

definition elba_of :: "'a SynchronizeUsers_scheme \<Rightarrow> Elba" where
  "elba_of d = \<lparr>elba_organisationId = organisationId d, elba_region = region d\<rparr>"

text \<open>The upsert calls that a fetched page leads to within the run of payload \<open>d\<close>.\<close>

definition page_upserts :: "SynchronizeUsers \<Rightarrow> GetUsersResult \<Rightarrow> (Elba \<times> User list) list" where
  "page_upserts d r =
     (if users r = [] then [] else [(elba_of d, map formatElbaUser (users r))])"

subsection \<open>One logical sync\<close>

text \<open>
  The worker is triggered by the event \<^verbatim>\<open>monday/users.page_sync.requested\<close> (line 52)
  and emits that same event to continue (lines 92-98): the dispatch layer runs the
  worker again on the payload it emitted. \<open>logical_sync\<close> follows this chain for at
  most \<open>fuel\<close> invocations against a fixed store and remote, and returns the
  invocations in order; \<^term>\<open>None\<close> says that the chain is longer than the fuel.
\<close>

fun logical_sync ::
  "nat \<Rightarrow> fetcher \<Rightarrow> 'a MondayOrganisation_scheme list \<Rightarrow> SynchronizeUsers
     \<Rightarrow> ((error + status) \<times> effect list) list option" where
  "logical_sync 0 getUsers db d = None"
| "logical_sync (Suc n) getUsers db d =
     (let run = syncUsers getUsers db d
      in case sent_events (snd run) of
           [] \<Rightarrow> Some [run]
         | d' # _ \<Rightarrow> map_option ((#) run) (logical_sync n getUsers db d'))"

text \<open>
  The remote data reached from cursor \<open>p\<close> with token \<open>tok\<close> is the pages \<open>rs\<close>:
  every page but the last returns a truthy next-page value, which is the cursor of
  the page after it, and the last page returns a falsy one.
\<close>

fun remote_pages :: "fetcher \<Rightarrow> string \<Rightarrow> int option \<Rightarrow> GetUsersResult list \<Rightarrow> bool" where
  "remote_pages getUsers tok p [] = False"
| "remote_pages getUsers tok p [r] = (getUsers tok p = Inr r \<and> \<not> truthy (nextPage r))"
| "remote_pages getUsers tok p (r # r' # rs) =
     (getUsers tok p = Inr r \<and> truthy (nextPage r) \<and>
      remote_pages getUsers tok (nextPage r) (r' # rs))"

subsection \<open>The scheduler \<^verbatim>\<open>scheduleUserSync\<close>\<close>

text \<open>
  The scheduler builds its event payload as an object literal (lines 13-16); an
  object is the list of its properties, read with \<^const>\<open>map_of\<close>, so that a property
  that is absent differs from one that is \<^verbatim>\<open>null\<close>.
\<close>

datatype jsvalue = JString string | JNumber int | JBoolean bool | JNull

record ScheduledEvent =
  name :: string
  data :: "(string \<times> jsvalue) list"

datatype scheduler_effect = SendEvents string "ScheduledEvent list"

record 'o ScheduleReport =
  organisations :: "'o list"

text \<open>
  \<^verbatim>\<open>getOrganisationsToSync()\<close> and \<^verbatim>\<open>Date.now()\<close> are parameters: what the query
  resolves to (or the error it rejects with) and the current instant.
\<close>

definition scheduleUserSync ::
  "error + 'a OrganisationRef_scheme list \<Rightarrow> int
     \<Rightarrow> (error + 'a OrganisationRef_scheme ScheduleReport) \<times> scheduler_effect list" where
  "scheduleUserSync getOrganisationsToSync now =
     (case getOrganisationsToSync of
        Inl e \<Rightarrow> (Inl e, [])
      | Inr organisations' \<Rightarrow>
          (let syncStartedAt' = now
           in (Inr \<lparr>organisations = organisations'\<rparr>,
               if length organisations' > 0
               then [SendEvents ''run-user-sync-jobs''
                       (map (\<lambda>organisation.
                               \<lparr>name = ''dropbox/users.sync_page.triggered'',
                                data = [(''organisationId'', JString (organisationId organisation)),
                                        (''isFirstSync'', JBoolean False),
                                        (''syncStartedAt'', JNumber syncStartedAt')]\<rparr>)
                            organisations')]
               else [])))"

text \<open>The events of a scheduler run, over all its \<^verbatim>\<open>sendEvent\<close> calls.\<close>

fun scheduled :: "scheduler_effect list \<Rightarrow> ScheduledEvent list" where
  "scheduled [] = []"
| "scheduled (SendEvents _ evs # es) = evs @ scheduled es"

subsection \<open>The failure classifier \<^verbatim>\<open>unauthorizedMiddleware\<close>\<close>

text \<open>
  The middleware's \<^verbatim>\<open>transformOutput\<close> receives a context whose \<^verbatim>\<open>result\<close> carries an
  optional \<^verbatim>\<open>error\<close>; the context and the result may have further fields, which are
  the extension parts of the records.
\<close>

record FnResult =
  error :: "error option"

record 'r TransformOutputCtx =
  result :: "'r FnResult_scheme"

text \<open>
  The status of the HTTP response that a connector's error carries, if any. The
  classifier's own test of an authorization rejection is not among the sources; the
  specification calls it an "HTTP 401-equivalent signal", which is read here as an
  error of a connector whose response has status 401.
\<close>

fun response_status :: "error \<Rightarrow> nat option" where
  "response_status (RequestError _ st) = st"
| "response_status (MondayError _ st) = st"
| "response_status _ = None"

definition is_unauthorized :: "error \<Rightarrow> bool" where
  "is_unauthorized e = (response_status e = Some 401)"

text \<open>
  Modelled from the spec: \<^verbatim>\<open>unauthorizedMiddleware\<close> (\<^verbatim>\<open>./unauthorized-middleware\<close>,
  imported by the test file \<^verbatim>\<open>part_001\<close>) is not among the sources; only its tests are.
  Following section 4.3: inspect the error carried by the result; on an
  authorization rejection, mark the organisation's connection as errored, remove
  the organisation's record from the store, and replace the error by a
  non-retriable one whose cause is the original; otherwise pass the result through
  with no side effect. The function returns the context, the effects and the store
  after the call. The event payload gives \<^verbatim>\<open>organisationId\<close> and \<^verbatim>\<open>region\<close> (test, line
  79); the message of the new error, which neither the spec nor the test fixes, is
  the parameter \<open>msg\<close>.
\<close>

definition unauthorizedMiddleware ::
  "string \<Rightarrow> 'd SynchronizeUsers_scheme \<Rightarrow> 'a OrganisationRow_scheme list
     \<Rightarrow> ('r, 'c) TransformOutputCtx_scheme
     \<Rightarrow> ('r, 'c) TransformOutputCtx_scheme \<times> effect list \<times> 'a OrganisationRow_scheme list" where
  "unauthorizedMiddleware msg event_data store ctx =
     (case error (result ctx) of
        None \<Rightarrow> (ctx, [], store)
      | Some e \<Rightarrow>
          if is_unauthorized e
          then (ctx\<lparr>result := (result ctx)\<lparr>error := Some (NonRetriableError msg (Some e))\<rparr>\<rparr>,
                [ConnectionStatusUpdate (elba_of event_data) True],
                filter (\<lambda>r. row_id r \<noteq> organisationId event_data) store)
          else (ctx, [], store))"

subsection \<open>Sample inputs\<close>

text \<open>A store with one organisation, a first-page payload, and three remotes.\<close>

definition sample_db :: "MondayOrganisation list" where
  "sample_db = [\<lparr>row_id = ''org-1'', token = ''tok-1''\<rparr>]"

definition sample_payload :: SynchronizeUsers where
  "sample_payload =
     \<lparr>organisationId = ''org-1'', region = ''eu'', isFirstSync = False,
      syncStartedAt = 1700000000000, page = None\<rparr>"

definition alice :: MondayUser where
  "alice = \<lparr>monday_id = ''1'', monday_name = ''Alice'', monday_email = ''alice@example.com''\<rparr>"

definition bob :: MondayUser where
  "bob = \<lparr>monday_id = ''2'', monday_name = ''Bob'', monday_email = ''bob@example.com''\<rparr>"

text \<open>
  The scenario of section 8 of the specification: the first page has two records and
  the next cursor 2, the page at cursor 2 is empty and last.
\<close>

definition remote_two_pages :: fetcher where
  "remote_two_pages tok p =
     (if p = None then Inr \<lparr>users = [alice, bob], nextPage = Some 2\<rparr>
      else if p = Some 2 then Inr \<lparr>users = [], nextPage = None\<rparr>
      else Inl (MondayError ''no such page'' (Some 404)))"

text \<open>A remote whose first page names the cursor 0 as its next page.\<close>

definition remote_cursor_zero :: fetcher where
  "remote_cursor_zero tok p =
     (if p = None then Inr \<lparr>users = [alice], nextPage = Some 0\<rparr>
      else if p = Some 0 then Inr \<lparr>users = [bob], nextPage = None\<rparr>
      else Inl (MondayError ''no such page'' (Some 404)))"

text \<open>A remote that answers every request with a server error.\<close>

definition remote_down :: fetcher where
  "remote_down tok p = Inl (MondayError ''internal server error'' (Some 500))"

text \<open>The context of the middleware's third test (lines 54-71 of \<^verbatim>\<open>part_001\<close>).\<close>

definition unauthorizedError :: error where
  "unauthorizedError = RequestError ''foo bar'' (Some 401)"

definition test_context :: "(string, string \<times> bool) TransformOutputCtx_scheme" where
  "test_context = \<lparr>result = \<lparr>error = Some unauthorizedError, \<dots> = ''bizz''\<rparr>, \<dots> = (''bar'', True)\<rparr>"

definition github_store :: "OrganisationRow list" where
  "github_store = [\<lparr>row_id = ''45a76301-f1dd-4a77-b12f-9d7d3fca3c90''\<rparr>]"

definition github_payload :: SynchronizeUsers where
  "github_payload =
     \<lparr>organisationId = ''45a76301-f1dd-4a77-b12f-9d7d3fca3c90'', region = ''us'',
      isFirstSync = False, syncStartedAt = 0, page = None\<rparr>"

section \<open>Properties\<close>

subsection \<open>Auxiliary facts\<close>

lemma upserts_append: "upserts (xs @ ys) = upserts xs @ upserts ys"
  by (induction xs rule: upserts.induct) simp_all

lemma deletes_append: "deletes (xs @ ys) = deletes xs @ deletes ys"
  by (induction xs rule: deletes.induct) simp_all

lemma sent_events_append: "sent_events (xs @ ys) = sent_events xs @ sent_events ys"
  by (induction xs rule: sent_events.induct) simp_all

lemma get_token_absent:
  assumes "organisationId d \<notin> row_id ` set db"
  shows "get_token db (organisationId d) =
    Inl (NonRetriableError (''Could not retrieve organisation with id='' @ organisationId d) None)"
proof -
  have "filter (\<lambda>r. row_id r = organisationId d) db = []"
    using assms by (auto simp: filter_empty_conv image_iff)
  then show ?thesis by (simp add: get_token_def)
qed

text \<open>The run of the worker once the token is found and the page is fetched.\<close>

lemma syncUsers_fetched:
  assumes "get_token db (organisationId d) = Inr tok"
    and "getUsers tok (page d) = Inr r"
  shows "syncUsers getUsers db d =
    (if truthy (nextPage r)
     then (Inr ongoing,
           GetUsers tok (page d) #
           (if users r = [] then []
            else [UsersUpdate (elba_of d) (map formatElbaUser (users r))]) @
           [SendEvent ''sync-users-page'' ''monday/users.page_sync.requested''
              (d\<lparr>page := nextPage r\<rparr>)])
     else if in_Date_range (syncStartedAt d)
     then (Inr completed,
           GetUsers tok (page d) #
           (if users r = [] then []
            else [UsersUpdate (elba_of d) (map formatElbaUser (users r))]) @
           [UsersDelete (elba_of d) (ISOString (syncStartedAt d))])
     else (Inl (RangeError ''Invalid time value''),
           GetUsers tok (page d) #
           (if users r = [] then []
            else [UsersUpdate (elba_of d) (map formatElbaUser (users r))])))"
  using assms
  by (simp add: syncUsers_def list_users_def elba_of_def Let_def new_Date_ms_def)

lemma syncUsers_fetch_failed:
  assumes "get_token db (organisationId d) = Inr tok"
    and "getUsers tok (page d) = Inl e"
  shows "syncUsers getUsers db d = (Inl e, [GetUsers tok (page d)])"
  using assms by (simp add: syncUsers_def list_users_def Let_def)

lemma syncUsers_no_token:
  assumes "get_token db (organisationId d) = Inl e"
  shows "syncUsers getUsers db d = (Inl e, [])"
  using assms by (simp add: syncUsers_def Let_def)

text \<open>Whatever happens, a run emits nothing or its own payload with a new page.\<close>

lemma syncUsers_sent_events:
  "sent_events (snd (syncUsers getUsers db d)) = [] \<or>
   (\<exists>p. sent_events (snd (syncUsers getUsers db d)) = [d\<lparr>page := p\<rparr>])"
proof (cases "get_token db (organisationId d)")
  case (Inl e)
  then show ?thesis by (simp add: syncUsers_no_token)
next
  case (Inr tok)
  show ?thesis
  proof (cases "getUsers tok (page d)")
    case (Inl e)
    with Inr show ?thesis by (simp add: syncUsers_fetch_failed)
  next
    case r: (Inr r)
    with Inr show ?thesis
      by (auto simp: syncUsers_fetched sent_events_append)
  qed
qed

lemma logical_sync_frame:
  assumes "logical_sync fuel getUsers db d = Some runs"
    and "run \<in> set runs" and "e \<in> set (sent_events (snd run))"
  shows "e\<lparr>page := page d\<rparr> = d"
  using assms
proof (induction fuel arbitrary: d runs)
  case 0
  then show ?case by simp
next
  case (Suc n)
  let ?first = "syncUsers getUsers db d"
  from syncUsers_sent_events [of getUsers db d]
  consider "sent_events (snd ?first) = []"
    | p where "sent_events (snd ?first) = [d\<lparr>page := p\<rparr>]"
    by blast
  then show ?case
  proof cases
    case 1
    with Suc.prems show ?thesis by (auto simp: Let_def)
  next
    case (2 p)
    with Suc.prems obtain rest where rest: "logical_sync n getUsers db (d\<lparr>page := p\<rparr>) = Some rest"
      and runs: "runs = ?first # rest"
      by (auto simp: Let_def)
    show ?thesis
    proof (cases "run = ?first")
      case True
      with 2 Suc.prems(3) show ?thesis by simp
    next
      case False
      with runs Suc.prems(2) have "run \<in> set rest" by simp
      from Suc.IH [OF rest this Suc.prems(3)] have "e\<lparr>page := p\<rparr> = d\<lparr>page := p\<rparr>" by simp
      then have "(e\<lparr>page := p\<rparr>)\<lparr>page := page d\<rparr> = (d\<lparr>page := p\<rparr>)\<lparr>page := page d\<rparr>" by simp
      then show ?thesis by simp
    qed
  qed
qed

lemma length_page_upserts:
  "length (concat (map (page_upserts d) rs)) = length (filter (\<lambda>r. users r \<noteq> []) rs)"
  by (induction rs) (simp_all add: page_upserts_def)

lemma logical_sync_pages:
  assumes "remote_pages getUsers tok (page d) rs"
    and "get_token db (organisationId d) = Inr tok"
    and "in_Date_range (syncStartedAt d)"
    and "length rs \<le> fuel"
  shows "\<exists>runs. logical_sync fuel getUsers db d = Some runs
     \<and> map fst runs = replicate (length rs - 1) (Inr ongoing) @ [Inr completed]
     \<and> map (upserts \<circ> snd) runs = map (page_upserts d) rs
     \<and> map (deletes \<circ> snd) runs =
         replicate (length rs - 1) [] @ [[(elba_of d, ISOString (syncStartedAt d))]]
     \<and> last (snd (last runs)) = UsersDelete (elba_of d) (ISOString (syncStartedAt d))"
  using assms
proof (induction getUsers tok "page d" rs arbitrary: d fuel rule: remote_pages.induct)
  case (1 getUsers tok)
  then show ?case by simp
next
  case (2 getUsers tok r)
  then obtain n where fuel: "fuel = Suc n" by (cases fuel) auto
  from 2 have run: "syncUsers getUsers db d =
      (Inr completed,
       GetUsers tok (page d) #
       (if users r = [] then []
        else [UsersUpdate (elba_of d) (map formatElbaUser (users r))]) @
       [UsersDelete (elba_of d) (ISOString (syncStartedAt d))])"
    by (simp add: syncUsers_fetched)
  show ?case
    by (simp add: fuel run page_upserts_def)
next
  case (3 getUsers tok r r' rs)
  then obtain n where fuel: "fuel = Suc n" and n: "length (r' # rs) \<le> n"
    by (cases fuel) auto
  let ?d' = "d\<lparr>page := nextPage r\<rparr>"
  from 3 have run: "syncUsers getUsers db d =
      (Inr ongoing,
       GetUsers tok (page d) #
       (if users r = [] then []
        else [UsersUpdate (elba_of d) (map formatElbaUser (users r))]) @
       [SendEvent ''sync-users-page'' ''monday/users.page_sync.requested'' ?d'])"
    by (simp add: syncUsers_fetched)
  have "remote_pages getUsers tok (page ?d') (r' # rs)" using 3 by simp
  moreover have "get_token db (organisationId ?d') = Inr tok" using 3 by simp
  moreover have "in_Date_range (syncStartedAt ?d')" using 3 by simp
  moreover have "nextPage r = page ?d'" by simp
  ultimately obtain runs where runs: "logical_sync n getUsers db ?d' = Some runs"
     "map fst runs = replicate (length (r' # rs) - 1) (Inr ongoing) @ [Inr completed]"
     "map (upserts \<circ> snd) runs = map (page_upserts ?d') (r' # rs)"
     "map (deletes \<circ> snd) runs =
         replicate (length (r' # rs) - 1) [] @ [[(elba_of ?d', ISOString (syncStartedAt ?d'))]]"
     "last (snd (last runs)) = UsersDelete (elba_of ?d') (ISOString (syncStartedAt ?d'))"
    using "3.hyps" n by blast
  have same: "page_upserts ?d' = page_upserts d" "elba_of ?d' = elba_of d"
    by (auto simp: page_upserts_def elba_of_def fun_eq_iff)
  from runs(2) have "runs \<noteq> []" by auto
  then show ?case
    using runs by (simp add: fuel run same page_upserts_def)
qed

subsection \<open>The worker\<close>

text \<open>
  C1, as amended. Let the remote data of an organisation span the pages \<open>rs\<close>, linked
  by truthy cursors: every page but the last returns a next-page value that is
  neither \<^verbatim>\<open>null\<close> nor 0, and the last returns \<^verbatim>\<open>null\<close> or 0; and let the payload's
  syncStartedAt be a time value that \<^verbatim>\<open>Date\<close> represents (at most 8.64e15 ms in
  absolute value). Then one logical sync, given
  at least one invocation per page, ends after exactly one invocation per page; the
  invocation of each page performs one upsert call when the page is non-empty and
  none when it is empty, so the upsert calls are as many as the non-empty pages; all
  invocations but the last report "ongoing" and perform no delete call; the last
  reports "completed" and performs exactly one delete call, its last effect, whose
  \<^verbatim>\<open>syncedBefore\<close> is the ISO text of the payload's \<^verbatim>\<open>syncStartedAt\<close>.
\<close>

theorem sync_upserts_each_page_then_deletes_once:
  assumes "remote_pages getUsers tok (page d) rs"
    and "get_token db (organisationId d) = Inr tok"
    and "in_Date_range (syncStartedAt d)"
    and "length rs \<le> fuel"
  shows "\<exists>runs. logical_sync fuel getUsers db d = Some runs
     \<and> length runs = length rs
     \<and> map fst runs = replicate (length rs - 1) (Inr ongoing) @ [Inr completed]
     \<and> map (upserts \<circ> snd) runs = map (page_upserts d) rs
     \<and> length (concat (map (upserts \<circ> snd) runs)) = length (filter (\<lambda>r. users r \<noteq> []) rs)
     \<and> map (deletes \<circ> snd) runs =
         replicate (length rs - 1) [] @ [[(elba_of d, ISOString (syncStartedAt d))]]
     \<and> last (snd (last runs)) = UsersDelete (elba_of d) (ISOString (syncStartedAt d))"
proof -
  from logical_sync_pages [OF assms] obtain runs where
    runs: "logical_sync fuel getUsers db d = Some runs"
      "map fst runs = replicate (length rs - 1) (Inr ongoing) @ [Inr completed]"
      "map (upserts \<circ> snd) runs = map (page_upserts d) rs"
      "map (deletes \<circ> snd) runs =
         replicate (length rs - 1) [] @ [[(elba_of d, ISOString (syncStartedAt d))]]"
      "last (snd (last runs)) = UsersDelete (elba_of d) (ISOString (syncStartedAt d))"
    by blast
  from runs(3) have "length (map (upserts \<circ> snd) runs) = length (map (page_upserts d) rs)"
    by simp
  then have len: "length runs = length rs" by simp
  have "length (concat (map (upserts \<circ> snd) runs)) = length (filter (\<lambda>r. users r \<noteq> []) rs)"
    by (simp only: runs(3) length_page_upserts)
  with runs len show ?thesis by blast
qed

theorem sync_upserts_each_page_then_deletes_once_witness:
  "remote_pages remote_two_pages ''tok-1'' (page sample_payload)
     [\<lparr>users = [alice, bob], nextPage = Some 2\<rparr>, \<lparr>users = [], nextPage = None\<rparr>]
   \<and> get_token sample_db (organisationId sample_payload) = Inr ''tok-1''
   \<and> in_Date_range (syncStartedAt sample_payload)
   \<and> (\<exists>runs. logical_sync 2 remote_two_pages sample_db sample_payload = Some runs
        \<and> length runs = 2
        \<and> map fst runs = [Inr ongoing, Inr completed]
        \<and> map (upserts \<circ> snd) runs =
            [[(elba_of sample_payload, [formatElbaUser alice, formatElbaUser bob])], []]
        \<and> length (concat (map (upserts \<circ> snd) runs)) = 1
        \<and> map (deletes \<circ> snd) runs =
            [[], [(elba_of sample_payload, ISOString 1700000000000)]]
        \<and> last (snd (last runs)) =
            UsersDelete (elba_of sample_payload) (ISOString 1700000000000))"
proof -
  let ?rs = "[\<lparr>users = [alice, bob], nextPage = Some 2\<rparr>, \<lparr>users = [], nextPage = None\<rparr>]"
  have pages: "remote_pages remote_two_pages ''tok-1'' (page sample_payload) ?rs"
    by (simp add: remote_two_pages_def sample_payload_def)
  have tok: "get_token sample_db (organisationId sample_payload) = Inr ''tok-1''"
    by (simp add: get_token_def sample_db_def sample_payload_def)
  have range: "in_Date_range (syncStartedAt sample_payload)"
    by (simp add: in_Date_range_def sample_payload_def)
  have fuel: "length ?rs \<le> 2" by simp
  from sync_upserts_each_page_then_deletes_once [OF pages tok range fuel]
  obtain runs where runs: "logical_sync 2 remote_two_pages sample_db sample_payload = Some runs"
    "length runs = length ?rs"
    "map fst runs = replicate (length ?rs - 1) (Inr ongoing) @ [Inr completed]"
    "map (upserts \<circ> snd) runs = map (page_upserts sample_payload) ?rs"
    "length (concat (map (upserts \<circ> snd) runs)) = length (filter (\<lambda>r. users r \<noteq> []) ?rs)"
    "map (deletes \<circ> snd) runs =
       replicate (length ?rs - 1) []
       @ [[(elba_of sample_payload, ISOString (syncStartedAt sample_payload))]]"
    "last (snd (last runs)) =
       UsersDelete (elba_of sample_payload) (ISOString (syncStartedAt sample_payload))"
    by blast
  have at: "syncStartedAt sample_payload = 1700000000000"
    by (simp add: sample_payload_def)
  have a1: "length runs = 2" using runs(2) by simp
  have a2: "map fst runs = [Inr ongoing, Inr completed]" using runs(3) by simp
  have a3: "map (upserts \<circ> snd) runs =
      [[(elba_of sample_payload, [formatElbaUser alice, formatElbaUser bob])], []]"
    using runs(4) by (simp add: page_upserts_def)
  have a4: "length (concat (map (upserts \<circ> snd) runs)) = 1" using runs(5) by simp
  have a5: "map (deletes \<circ> snd) runs =
      [[], [(elba_of sample_payload, ISOString 1700000000000)]]"
    using runs(6) by (simp add: at)
  have a6: "last (snd (last runs)) =
      UsersDelete (elba_of sample_payload) (ISOString 1700000000000)"
    using runs(7) by (simp add: at)
  have "\<exists>runs. logical_sync 2 remote_two_pages sample_db sample_payload = Some runs
        \<and> length runs = 2
        \<and> map fst runs = [Inr ongoing, Inr completed]
        \<and> map (upserts \<circ> snd) runs =
            [[(elba_of sample_payload, [formatElbaUser alice, formatElbaUser bob])], []]
        \<and> length (concat (map (upserts \<circ> snd) runs)) = 1
        \<and> map (deletes \<circ> snd) runs =
            [[], [(elba_of sample_payload, ISOString 1700000000000)]]
        \<and> last (snd (last runs)) =
            UsersDelete (elba_of sample_payload) (ISOString 1700000000000)"
    by (rule exI [of _ runs]) (simp add: runs(1) a1 a2 a3 a5 a6)
  with pages tok range show ?thesis by (intro conjI)
qed

text \<open>
  C1 as stated fails: the remote below has two non-empty pages, the first naming the
  cursor 0 as its next page and the second, at cursor 0, naming none. The logical
  sync is a single invocation: it performs one upsert call, not two, and the delete
  call occurs in the invocation whose fetch result still has a next-page cursor.
\<close>

theorem cursor_zero_ends_sync_counterexample:
  "remote_cursor_zero ''tok-1'' None = Inr \<lparr>users = [alice], nextPage = Some 0\<rparr>
   \<and> remote_cursor_zero ''tok-1'' (Some 0) = Inr \<lparr>users = [bob], nextPage = None\<rparr>
   \<and> logical_sync 2 remote_cursor_zero sample_db sample_payload =
       Some [(Inr completed,
              [GetUsers ''tok-1'' None,
               UsersUpdate (elba_of sample_payload) [formatElbaUser alice],
               UsersDelete (elba_of sample_payload) (ISOString 1700000000000)])]"
  by (simp add: remote_cursor_zero_def syncUsers_def get_token_def list_users_def
      sample_db_def sample_payload_def elba_of_def Let_def numeral_2_eq_2
      new_Date_ms_def in_Date_range_def)

text \<open>
  C2, as amended. For every invocation whose page fetch returns a truthy next-page
  cursor (neither \<^verbatim>\<open>null\<close> nor 0), the worker reports "ongoing" and emits exactly one
  event, whose payload has that cursor as its page and the incoming payload's
  organisationId, region, isFirstSync and syncStartedAt. Moreover, in every logical
  sync that starts from a payload, each emitted payload differs from it in the page
  at most, so syncStartedAt is the same on all pages.
\<close>

theorem truthy_cursor_continues:
  assumes "get_token db (organisationId d) = Inr tok"
    and "getUsers tok (page d) = Inr r"
    and "truthy (nextPage r)"
  shows "fst (syncUsers getUsers db d) = Inr ongoing
     \<and> (\<exists>d'. sent_events (snd (syncUsers getUsers db d)) = [d']
          \<and> page d' = nextPage r
          \<and> organisationId d' = organisationId d
          \<and> region d' = region d
          \<and> isFirstSync d' = isFirstSync d
          \<and> syncStartedAt d' = syncStartedAt d)
     \<and> (\<forall>fuel runs run e. logical_sync fuel getUsers db d = Some runs
          \<and> run \<in> set runs \<and> e \<in> set (sent_events (snd run))
          \<longrightarrow> e\<lparr>page := page d\<rparr> = d \<and> syncStartedAt e = syncStartedAt d)"
proof -
  have run: "syncUsers getUsers db d =
      (Inr ongoing,
       GetUsers tok (page d) #
       (if users r = [] then []
        else [UsersUpdate (elba_of d) (map formatElbaUser (users r))]) @
       [SendEvent ''sync-users-page'' ''monday/users.page_sync.requested''
          (d\<lparr>page := nextPage r\<rparr>)])"
    using assms by (simp add: syncUsers_fetched)
  have "fst (syncUsers getUsers db d) = Inr ongoing"
    by (simp add: run)
  moreover have "sent_events (snd (syncUsers getUsers db d)) = [d\<lparr>page := nextPage r\<rparr>]"
    by (simp add: run sent_events_append)
  moreover have "e\<lparr>page := page d\<rparr> = d \<and> syncStartedAt e = syncStartedAt d"
    if "logical_sync fuel getUsers db d = Some runs" "run \<in> set runs"
      "e \<in> set (sent_events (snd run))" for fuel runs run e
  proof -
    from logical_sync_frame [OF that] have eq: "e\<lparr>page := page d\<rparr> = d" .
    from arg_cong [OF eq, of syncStartedAt] have "syncStartedAt e = syncStartedAt d" by simp
    with eq show ?thesis by simp
  qed
  ultimately show ?thesis by auto
qed

theorem truthy_cursor_continues_witness:
  "get_token sample_db (organisationId sample_payload) = Inr ''tok-1''
   \<and> remote_two_pages ''tok-1'' (page sample_payload)
       = Inr \<lparr>users = [alice, bob], nextPage = Some 2\<rparr>
   \<and> truthy (Some 2)
   \<and> fst (syncUsers remote_two_pages sample_db sample_payload) = Inr ongoing
   \<and> (\<exists>d'. sent_events (snd (syncUsers remote_two_pages sample_db sample_payload)) = [d']
        \<and> page d' = Some 2
        \<and> organisationId d' = ''org-1''
        \<and> region d' = ''eu''
        \<and> isFirstSync d' = False
        \<and> syncStartedAt d' = 1700000000000)
   \<and> logical_sync 2 remote_two_pages sample_db sample_payload =
       Some [syncUsers remote_two_pages sample_db sample_payload,
             syncUsers remote_two_pages sample_db (sample_payload\<lparr>page := Some 2\<rparr>)]
   \<and> sample_payload\<lparr>page := Some 2\<rparr>
       \<in> set (sent_events (snd (syncUsers remote_two_pages sample_db sample_payload)))
   \<and> syncStartedAt (sample_payload\<lparr>page := Some 2\<rparr>) = syncStartedAt sample_payload"
proof -
  let ?r = "\<lparr>users = [alice, bob], nextPage = Some 2\<rparr>"
  let ?first = "syncUsers remote_two_pages sample_db sample_payload"
  let ?second = "syncUsers remote_two_pages sample_db (sample_payload\<lparr>page := Some 2\<rparr>)"
  have tok: "get_token sample_db (organisationId sample_payload) = Inr ''tok-1''"
    by (simp add: get_token_def sample_db_def sample_payload_def)
  have fetch: "remote_two_pages ''tok-1'' (page sample_payload) = Inr ?r"
    by (simp add: remote_two_pages_def sample_payload_def)
  have cursor: "truthy (nextPage ?r)" by simp
  note inst = truthy_cursor_continues
    [of sample_db sample_payload "''tok-1''" remote_two_pages ?r, OF tok fetch cursor]
  from inst have all: "\<forall>fuel runs run e.
      logical_sync fuel remote_two_pages sample_db sample_payload = Some runs
      \<and> run \<in> set runs \<and> e \<in> set (sent_events (snd run))
      \<longrightarrow> e\<lparr>page := page sample_payload\<rparr> = sample_payload
        \<and> syncStartedAt e = syncStartedAt sample_payload"
    by (elim conjE)
  from inst
  have "fst (syncUsers remote_two_pages sample_db sample_payload) = Inr ongoing
     \<and> (\<exists>d'. sent_events (snd (syncUsers remote_two_pages sample_db sample_payload)) = [d']
        \<and> page d' = Some 2
        \<and> organisationId d' = ''org-1''
        \<and> region d' = ''eu''
        \<and> isFirstSync d' = False
        \<and> syncStartedAt d' = 1700000000000)"
    by (simp add: sample_payload_def)
  note inv = this
  have emitted: "sent_events (snd ?first) = [sample_payload\<lparr>page := Some 2\<rparr>]"
    by (simp add: syncUsers_fetched [of sample_db sample_payload "''tok-1''" remote_two_pages ?r,
          OF tok fetch] sent_events_append)
  have last_emitted: "sent_events (snd ?second) = []"
    by (simp add: syncUsers_def get_token_def list_users_def remote_two_pages_def
        sample_db_def sample_payload_def Let_def new_Date_ms_def in_Date_range_def)
  have chain: "logical_sync 2 remote_two_pages sample_db sample_payload = Some [?first, ?second]"
    by (simp add: numeral_2_eq_2 Let_def emitted last_emitted)
  have mem: "sample_payload\<lparr>page := Some 2\<rparr> \<in> set (sent_events (snd ?first))"
    by (simp add: emitted)
  from all have "syncStartedAt (sample_payload\<lparr>page := Some 2\<rparr>) = syncStartedAt sample_payload"
    using chain mem by (meson list.set_intros(1))
  with inv tok fetch chain mem show ?thesis by simp
qed

text \<open>
  C2 as stated fails: the fetch below returns the next-page cursor 0, and the
  invocation reports "completed" and emits no event.
\<close>

theorem cursor_zero_not_continued_counterexample:
  "remote_cursor_zero ''tok-1'' (page sample_payload)
     = Inr \<lparr>users = [alice], nextPage = Some 0\<rparr>
   \<and> fst (syncUsers remote_cursor_zero sample_db sample_payload) = Inr completed
   \<and> sent_events (snd (syncUsers remote_cursor_zero sample_db sample_payload)) = []"
  by (simp add: remote_cursor_zero_def syncUsers_def get_token_def list_users_def
      sample_db_def sample_payload_def Let_def new_Date_ms_def in_Date_range_def)

text \<open>
  C6. For every invocation whose organisationId has no record in the store, the
  worker fails with the non-retriable error "Could not retrieve organisation with
  id=..." and has performed no call at all: no page fetch, no upsert, no delete, no
  event.
\<close>

theorem missing_organisation_fails_before_any_call:
  assumes "organisationId d \<notin> row_id ` set db"
  shows "syncUsers getUsers db d =
    (Inl (NonRetriableError
            (''Could not retrieve organisation with id='' @ organisationId d) None), [])"
  using get_token_absent [OF assms] by (rule syncUsers_no_token)

theorem missing_organisation_fails_before_any_call_witness:
  "''org-2'' \<notin> row_id ` set sample_db
   \<and> syncUsers remote_two_pages sample_db (sample_payload\<lparr>organisationId := ''org-2''\<rparr>) =
       (Inl (NonRetriableError ''Could not retrieve organisation with id=org-2'' None), [])"
proof -
  let ?d = "sample_payload\<lparr>organisationId := ''org-2''\<rparr>"
  have absent: "organisationId ?d \<notin> row_id ` set sample_db"
    by (simp add: sample_db_def)
  from missing_organisation_fails_before_any_call [OF absent, of remote_two_pages] absent
  show ?thesis by simp
qed

text \<open>
  C7. For every fetched page, the worker performs one upsert call, with the fetched
  users mapped through \<^verbatim>\<open>formatElbaUser\<close>, when the page's record list is non-empty,
  and none when it is empty; and against a remote that returns the same page with
  its records removed, the status, the emitted event and the delete call are the
  same.
\<close>

theorem upsert_iff_page_nonempty:
  assumes "get_token db (organisationId d) = Inr tok"
    and "getUsers tok (page d) = Inr r"
    and "getUsers' tok (page d) = Inr (r\<lparr>users := []\<rparr>)"
  shows "upserts (snd (syncUsers getUsers db d)) =
       (if users r = [] then [] else [(elba_of d, map formatElbaUser (users r))])
     \<and> upserts (snd (syncUsers getUsers' db d)) = []
     \<and> fst (syncUsers getUsers' db d) = fst (syncUsers getUsers db d)
     \<and> sent_events (snd (syncUsers getUsers' db d)) = sent_events (snd (syncUsers getUsers db d))
     \<and> deletes (snd (syncUsers getUsers' db d)) = deletes (snd (syncUsers getUsers db d))"
proof -
  note full = syncUsers_fetched [of db d tok getUsers r, OF assms(1,2)]
  note bare = syncUsers_fetched [of db d tok getUsers' "r\<lparr>users := []\<rparr>", OF assms(1,3)]
  show ?thesis
    by (simp add: full bare upserts_append sent_events_append deletes_append)
qed

theorem upsert_iff_page_nonempty_witness:
  "get_token sample_db (organisationId sample_payload) = Inr ''tok-1''
   \<and> remote_two_pages ''tok-1'' (page sample_payload)
       = Inr \<lparr>users = [alice, bob], nextPage = Some 2\<rparr>
   \<and> upserts (snd (syncUsers remote_two_pages sample_db sample_payload)) =
       [(elba_of sample_payload, [formatElbaUser alice, formatElbaUser bob])]
   \<and> upserts (snd (syncUsers (\<lambda>tok p. Inr \<lparr>users = [], nextPage = Some 2\<rparr>)
                      sample_db sample_payload)) = []
   \<and> fst (syncUsers (\<lambda>tok p. Inr \<lparr>users = [], nextPage = Some 2\<rparr>) sample_db sample_payload)
       = fst (syncUsers remote_two_pages sample_db sample_payload)"
proof -
  let ?r = "\<lparr>users = [alice, bob], nextPage = Some 2\<rparr>"
  let ?g' = "\<lambda>(tok :: string) (p :: int option). Inr \<lparr>users = [], nextPage = Some 2\<rparr> :: error + GetUsersResult"
  have tok: "get_token sample_db (organisationId sample_payload) = Inr ''tok-1''"
    by (simp add: get_token_def sample_db_def sample_payload_def)
  have fetch: "remote_two_pages ''tok-1'' (page sample_payload) = Inr ?r"
    by (simp add: remote_two_pages_def sample_payload_def)
  have fetch': "?g' ''tok-1'' (page sample_payload) = Inr (?r\<lparr>users := []\<rparr>)"
    by simp
  from upsert_iff_page_nonempty
    [of sample_db sample_payload "''tok-1''" remote_two_pages ?r ?g', OF tok fetch fetch']
    tok fetch
  show ?thesis by simp
qed

text \<open>
  C8. Two deliveries of the same payload, against stores that answer the token query
  alike and remotes that answer the fetch of the payload's page alike, have the same
  outcome and the same effects, hence the same upsert batch: the run is a function of
  the payload and of the collaborators' answers to the calls it makes.
\<close>

theorem redelivery_gives_same_batch:
  assumes "map token (filter (\<lambda>r. row_id r = organisationId d) db') =
           map token (filter (\<lambda>r. row_id r = organisationId d) db)"
    and "\<forall>tok. getUsers' tok (page d) = getUsers tok (page d)"
  shows "syncUsers getUsers' db' d = syncUsers getUsers db d
     \<and> upserts (snd (syncUsers getUsers' db' d)) = upserts (snd (syncUsers getUsers db d))"
proof -
  have "get_token db' (organisationId d) = get_token db (organisationId d)"
    by (simp add: get_token_def assms(1))
  moreover have "list_users getUsers' elba tok (page d) = list_users getUsers elba tok (page d)"
    for elba tok
    by (simp add: list_users_def assms(2))
  ultimately have "syncUsers getUsers' db' d = syncUsers getUsers db d"
    by (simp add: syncUsers_def cong: sum.case_cong)
  then show ?thesis by simp
qed

theorem redelivery_gives_same_batch_witness:
  "map token (filter (\<lambda>r. row_id r = organisationId sample_payload)
      (sample_db @ [\<lparr>row_id = ''org-9'', token = ''tok-9''\<rparr>])) =
   map token (filter (\<lambda>r. row_id r = organisationId sample_payload) sample_db)
   \<and> (\<forall>tok. (\<lambda>tok p. if p = None then remote_two_pages tok p else remote_down tok p)
              tok (page sample_payload)
            = remote_two_pages tok (page sample_payload))
   \<and> upserts (snd (syncUsers
        (\<lambda>tok p. if p = None then remote_two_pages tok p else remote_down tok p)
        (sample_db @ [\<lparr>row_id = ''org-9'', token = ''tok-9''\<rparr>]) sample_payload)) =
       [(elba_of sample_payload, [formatElbaUser alice, formatElbaUser bob])]"
proof -
  let ?db' = "sample_db @ [\<lparr>row_id = ''org-9'', token = ''tok-9''\<rparr>]"
  let ?g' = "\<lambda>tok p. if p = None then remote_two_pages tok p else remote_down tok p"
  have store: "map token (filter (\<lambda>r. row_id r = organisationId sample_payload) ?db') =
      map token (filter (\<lambda>r. row_id r = organisationId sample_payload) sample_db)"
    by (simp add: sample_payload_def)
  have remote: "\<forall>tok. ?g' tok (page sample_payload) = remote_two_pages tok (page sample_payload)"
    by (simp add: sample_payload_def)
  have one: "upserts (snd (syncUsers remote_two_pages sample_db sample_payload)) =
       [(elba_of sample_payload, [formatElbaUser alice, formatElbaUser bob])]"
    by (simp add: syncUsers_def get_token_def list_users_def remote_two_pages_def
        sample_db_def sample_payload_def elba_of_def Let_def)
  from redelivery_gives_same_batch [of sample_payload ?db' sample_db ?g' remote_two_pages,
      OF store remote] one
  have "upserts (snd (syncUsers ?g' ?db' sample_payload)) =
       [(elba_of sample_payload, [formatElbaUser alice, formatElbaUser bob])]"
    by simp
  with store remote show ?thesis by (intro conjI)
qed

text \<open>
  C10, as amended. When the fetch returns a next-page value that is not \<^verbatim>\<open>null\<close> but
  falsy (the cursor 0), the worker takes it for the absence of a next page: it emits
  no continuation event and enters the finalize step; and when the payload's
  syncStartedAt is a time value that \<^verbatim>\<open>Date\<close> represents (at most 8.64e15 ms in absolute
  value), it performs the finalize delete with that watermark, as its last effect,
  and reports "completed".
\<close>

theorem falsy_cursor_finalizes:
  assumes "get_token db (organisationId d) = Inr tok"
    and "getUsers tok (page d) = Inr r"
    and "nextPage r \<noteq> None" and "\<not> truthy (nextPage r)"
  shows "nextPage r = Some 0
     \<and> sent_events (snd (syncUsers getUsers db d)) = []
     \<and> (in_Date_range (syncStartedAt d) \<longrightarrow>
          fst (syncUsers getUsers db d) = Inr completed
        \<and> deletes (snd (syncUsers getUsers db d)) = [(elba_of d, ISOString (syncStartedAt d))]
        \<and> last (snd (syncUsers getUsers db d)) =
            UsersDelete (elba_of d) (ISOString (syncStartedAt d)))"
proof -
  from assms(3,4) have zero: "nextPage r = Some 0"
    by (cases "nextPage r") simp_all
  note run = syncUsers_fetched [of db d tok getUsers r, OF assms(1,2)]
  have "sent_events (snd (syncUsers getUsers db d)) = []"
    by (simp add: run zero sent_events_append)
  moreover have "fst (syncUsers getUsers db d) = Inr completed
        \<and> deletes (snd (syncUsers getUsers db d)) = [(elba_of d, ISOString (syncStartedAt d))]
        \<and> last (snd (syncUsers getUsers db d)) =
            UsersDelete (elba_of d) (ISOString (syncStartedAt d))"
    if "in_Date_range (syncStartedAt d)"
    using that by (simp add: run zero deletes_append)
  ultimately show ?thesis using zero by blast
qed

theorem falsy_cursor_finalizes_witness:
  "get_token sample_db (organisationId sample_payload) = Inr ''tok-1''
   \<and> remote_cursor_zero ''tok-1'' (page sample_payload)
       = Inr \<lparr>users = [alice], nextPage = Some 0\<rparr>
   \<and> Some (0 :: int) \<noteq> None \<and> \<not> truthy (Some 0)
   \<and> in_Date_range (syncStartedAt sample_payload)
   \<and> sent_events (snd (syncUsers remote_cursor_zero sample_db sample_payload)) = []
   \<and> fst (syncUsers remote_cursor_zero sample_db sample_payload) = Inr completed
   \<and> deletes (snd (syncUsers remote_cursor_zero sample_db sample_payload)) =
       [(elba_of sample_payload, ISOString 1700000000000)]"
proof -
  let ?r = "\<lparr>users = [alice], nextPage = Some 0\<rparr>"
  have tok: "get_token sample_db (organisationId sample_payload) = Inr ''tok-1''"
    by (simp add: get_token_def sample_db_def sample_payload_def)
  have fetch: "remote_cursor_zero ''tok-1'' (page sample_payload) = Inr ?r"
    by (simp add: remote_cursor_zero_def sample_payload_def)
  have present: "nextPage ?r \<noteq> None" by simp
  have falsy: "\<not> truthy (nextPage ?r)" by simp
  have at: "syncStartedAt sample_payload = 1700000000000"
    by (simp add: sample_payload_def)
  have range: "in_Date_range (syncStartedAt sample_payload)"
    by (simp add: in_Date_range_def at)
  from falsy_cursor_finalizes
    [of sample_db sample_payload "''tok-1''" remote_cursor_zero ?r, OF tok fetch present falsy]
    range
  have "sent_events (snd (syncUsers remote_cursor_zero sample_db sample_payload)) = []
   \<and> fst (syncUsers remote_cursor_zero sample_db sample_payload) = Inr completed
   \<and> deletes (snd (syncUsers remote_cursor_zero sample_db sample_payload)) =
       [(elba_of sample_payload, ISOString 1700000000000)]"
    by (simp add: at)
  with tok fetch range show ?thesis by simp
qed

text \<open>
  C10 as stated fails: with the cursor 0 and a syncStartedAt of 8640000000000001 ms,
  one past the range of \<^verbatim>\<open>Date\<close>, the finalize step throws a \<^verbatim>\<open>RangeError\<close>; the worker
  performs no delete call and does not report "completed".
\<close>

theorem falsy_cursor_out_of_range_counterexample:
  "remote_cursor_zero ''tok-1'' None = Inr \<lparr>users = [alice], nextPage = Some 0\<rparr>
   \<and> syncUsers remote_cursor_zero sample_db
       (sample_payload\<lparr>syncStartedAt := 8640000000000001\<rparr>) =
       (Inl (RangeError ''Invalid time value''),
        [GetUsers ''tok-1'' None,
         UsersUpdate (elba_of sample_payload) [formatElbaUser alice]])"
  by (simp add: remote_cursor_zero_def syncUsers_def get_token_def list_users_def
      sample_db_def sample_payload_def elba_of_def Let_def new_Date_ms_def in_Date_range_def)

subsection \<open>The scheduler\<close>

text \<open>
  C5, as amended. On each scheduler run that enumerates the organisations \<open>orgs\<close>, the
  report is the list of these organisations; when the list is empty no event is
  emitted; otherwise one \<^verbatim>\<open>sendEvent\<close> call emits exactly one event per organisation,
  in order, each with that organisation's id, isFirstSync=false and the one
  syncStartedAt value of the run (the current instant). The payload has these three
  properties and no other: it carries no page property.
\<close>

theorem scheduler_emits_one_event_per_organisation:
  "fst (scheduleUserSync (Inr orgs) now) = Inr \<lparr>organisations = orgs\<rparr>
   \<and> length (snd (scheduleUserSync (Inr orgs) now)) = (if orgs = [] then 0 else 1)
   \<and> length (scheduled (snd (scheduleUserSync (Inr orgs) now))) = length orgs
   \<and> map (\<lambda>e. map_of (data e) ''organisationId'')
         (scheduled (snd (scheduleUserSync (Inr orgs) now)))
       = map (\<lambda>organisation. Some (JString (organisationId organisation))) orgs
   \<and> (\<forall>e \<in> set (scheduled (snd (scheduleUserSync (Inr orgs) now))).
         name e = ''dropbox/users.sync_page.triggered''
       \<and> map_of (data e) ''isFirstSync'' = Some (JBoolean False)
       \<and> map_of (data e) ''syncStartedAt'' = Some (JNumber now)
       \<and> map_of (data e) ''page'' = None
       \<and> map fst (data e) = [''organisationId'', ''isFirstSync'', ''syncStartedAt''])"
proof -
  let ?run = "scheduleUserSync (Inr orgs) now"
  let ?event = "\<lambda>organisation :: 'a OrganisationRef_scheme.
      \<lparr>name = ''dropbox/users.sync_page.triggered'',
       data = [(''organisationId'', JString (organisationId organisation)),
               (''isFirstSync'', JBoolean False),
               (''syncStartedAt'', JNumber now)]\<rparr>"
  have report: "fst ?run = Inr \<lparr>organisations = orgs\<rparr>"
    by (simp add: scheduleUserSync_def Let_def)
  have calls: "length (snd ?run) = (if orgs = [] then 0 else 1)"
    by (simp add: scheduleUserSync_def Let_def)
  have events: "scheduled (snd ?run) = map ?event orgs"
    by (simp add: scheduleUserSync_def Let_def)
  have ids: "map (\<lambda>e. map_of (data e) ''organisationId'') (map ?event orgs)
      = map (\<lambda>organisation. Some (JString (organisationId organisation))) orgs"
    by (simp add: comp_def)
  have each: "name e = ''dropbox/users.sync_page.triggered''
       \<and> map_of (data e) ''isFirstSync'' = Some (JBoolean False)
       \<and> map_of (data e) ''syncStartedAt'' = Some (JNumber now)
       \<and> map_of (data e) ''page'' = None
       \<and> map fst (data e) = [''organisationId'', ''isFirstSync'', ''syncStartedAt'']"
    if "e \<in> set (map ?event orgs)" for e
    using that by auto
  show ?thesis
    unfolding events using report calls ids each by simp
qed

theorem scheduler_emits_one_event_per_organisation_witness:
  "\<lparr>name = ''dropbox/users.sync_page.triggered'',
     data = [(''organisationId'', JString ''org-2''), (''isFirstSync'', JBoolean False),
             (''syncStartedAt'', JNumber 1700000000000)]\<rparr>
     \<in> set (scheduled (snd (scheduleUserSync
          (Inr [\<lparr>organisationId = ''org-1''\<rparr>, \<lparr>organisationId = ''org-2''\<rparr>]) 1700000000000)))
   \<and> fst (scheduleUserSync
          (Inr [\<lparr>organisationId = ''org-1''\<rparr>, \<lparr>organisationId = ''org-2''\<rparr>]) 1700000000000)
       = Inr \<lparr>organisations = [\<lparr>organisationId = ''org-1''\<rparr>, \<lparr>organisationId = ''org-2''\<rparr>]\<rparr>
   \<and> length (snd (scheduleUserSync
          (Inr [\<lparr>organisationId = ''org-1''\<rparr>, \<lparr>organisationId = ''org-2''\<rparr>]) 1700000000000)) = 1
   \<and> length (scheduled (snd (scheduleUserSync
          (Inr [\<lparr>organisationId = ''org-1''\<rparr>, \<lparr>organisationId = ''org-2''\<rparr>]) 1700000000000))) = 2"
proof -
  let ?orgs = "[\<lparr>organisationId = ''org-1''\<rparr>, \<lparr>organisationId = ''org-2''\<rparr>]"
  let ?e = "\<lparr>name = ''dropbox/users.sync_page.triggered'',
     data = [(''organisationId'', JString ''org-2''), (''isFirstSync'', JBoolean False),
             (''syncStartedAt'', JNumber 1700000000000)]\<rparr>"
  have mem: "?e \<in> set (scheduled (snd (scheduleUserSync (Inr ?orgs) 1700000000000)))"
    by (simp add: scheduleUserSync_def Let_def)
  from scheduler_emits_one_event_per_organisation [of ?orgs 1700000000000] mem
  show ?thesis by simp
qed

text \<open>
  C5 as stated fails: the payload emitted for an organisation has no page property,
  so its page is not \<^verbatim>\<open>null\<close>.
\<close>

theorem scheduler_payload_without_page_counterexample:
  "scheduled (snd (scheduleUserSync (Inr [\<lparr>organisationId = ''org-1''\<rparr>]) 1700000000000)) =
     [\<lparr>name = ''dropbox/users.sync_page.triggered'',
       data = [(''organisationId'', JString ''org-1''), (''isFirstSync'', JBoolean False),
               (''syncStartedAt'', JNumber 1700000000000)]\<rparr>]
   \<and> map_of [(''organisationId'', JString ''org-1''), (''isFirstSync'', JBoolean False),
              (''syncStartedAt'', JNumber 1700000000000)] ''page'' \<noteq> Some JNull"
  by (simp add: scheduleUserSync_def Let_def)

subsection \<open>The failure classifier\<close>

text \<open>
  C3. For every result whose error is an authorization rejection (an error whose
  response has status 401), the classifier performs exactly one effect, the
  connection-status update with hasError=true for the payload's organisation and
  region; the store afterwards is the store without the rows of that organisation;
  the error of the result is a non-retriable error whose cause is the original
  error; and the other fields of the result and of the context are unchanged.
\<close>

theorem unauthorized_error_is_reclassified:
  assumes "error (result ctx) = Some e" and "is_unauthorized e"
  shows "case unauthorizedMiddleware msg event_data store ctx of
      (ctx', effs, store') \<Rightarrow>
         effs = [ConnectionStatusUpdate (elba_of event_data) True]
       \<and> store' = filter (\<lambda>r. row_id r \<noteq> organisationId event_data) store
       \<and> organisationId event_data \<notin> row_id ` set store'
       \<and> error (result ctx') = Some (NonRetriableError msg (Some e))
       \<and> FnResult.more (result ctx') = FnResult.more (result ctx)
       \<and> TransformOutputCtx.more ctx' = TransformOutputCtx.more ctx"
  using assms by (auto simp: unauthorizedMiddleware_def)

text \<open>
  The third test of the middleware (lines 52-111 of \<^verbatim>\<open>part_001\<close>): the error becomes a
  \<^verbatim>\<open>NonRetriableError\<close> with the original as cause, the other fields stay, the
  connection status is updated once with \<^verbatim>\<open>hasError: true\<close>, and the organisation is
  gone from the table.
\<close>

theorem unauthorized_error_is_reclassified_witness:
  "error (result test_context) = Some unauthorizedError
   \<and> is_unauthorized unauthorizedError
   \<and> unauthorizedMiddleware ''unauthorized'' github_payload github_store test_context =
       (\<lparr>result = \<lparr>error = Some (NonRetriableError ''unauthorized'' (Some unauthorizedError)),
                   \<dots> = ''bizz''\<rparr>,
         \<dots> = (''bar'', True)\<rparr>,
        [ConnectionStatusUpdate
           \<lparr>elba_organisationId = ''45a76301-f1dd-4a77-b12f-9d7d3fca3c90'',
            elba_region = ''us''\<rparr> True],
        [])"
proof -
  have err: "error (result test_context) = Some unauthorizedError"
    by (simp add: test_context_def)
  have unauth: "is_unauthorized unauthorizedError"
    by (simp add: is_unauthorized_def unauthorizedError_def)
  obtain ctx' effs store' where
    out: "unauthorizedMiddleware ''unauthorized'' github_payload github_store test_context
            = (ctx', effs, store')"
    by (cases "unauthorizedMiddleware ''unauthorized'' github_payload github_store test_context")
  from unauthorized_error_is_reclassified
    [where msg = "''unauthorized''" and event_data = github_payload and store = github_store,
      OF err unauth]
  have props: "effs = [ConnectionStatusUpdate (elba_of github_payload) True]"
      "store' = filter (\<lambda>r. row_id r \<noteq> organisationId github_payload) github_store"
      "error (result ctx') = Some (NonRetriableError ''unauthorized'' (Some unauthorizedError))"
      "FnResult.more (result ctx') = FnResult.more (result test_context)"
      "TransformOutputCtx.more ctx' = TransformOutputCtx.more test_context"
    by (simp_all add: out)
  have "ctx' = \<lparr>result = \<lparr>error = Some (NonRetriableError ''unauthorized'' (Some unauthorizedError)),
                   \<dots> = ''bizz''\<rparr>, \<dots> = (''bar'', True)\<rparr>"
  proof (rule TransformOutputCtx.equality)
    show "result ctx' = result \<lparr>result = \<lparr>error = Some (NonRetriableError ''unauthorized'' (Some unauthorizedError)),
                   \<dots> = ''bizz''\<rparr>, \<dots> = (''bar'', True)\<rparr>"
      using props(3,4) by (intro FnResult.equality) (simp_all add: test_context_def)
    show "TransformOutputCtx.more ctx' = TransformOutputCtx.more \<lparr>result = \<lparr>error = Some (NonRetriableError ''unauthorized'' (Some unauthorizedError)),
                   \<dots> = ''bizz''\<rparr>, \<dots> = (''bar'', True)\<rparr>"
      using props(5) by (simp add: test_context_def)
  qed
  moreover have "effs = [ConnectionStatusUpdate
           \<lparr>elba_organisationId = ''45a76301-f1dd-4a77-b12f-9d7d3fca3c90'',
            elba_region = ''us''\<rparr> True]"
    using props(1) by (simp add: elba_of_def github_payload_def)
  moreover have "store' = []"
    using props(2) by (simp add: github_payload_def github_store_def)
  ultimately show ?thesis using err unauth out by simp
qed

text \<open>
  C4. For every result whose error is absent, or present but not an authorization
  rejection, the classifier returns the context as it is, performs no effect (no
  connection-status update) and leaves the store as it is (no organisation
  removed).
\<close>

theorem other_results_pass_through:
  assumes "error (result ctx) = None
         \<or> (\<exists>e. error (result ctx) = Some e \<and> \<not> is_unauthorized e)"
  shows "unauthorizedMiddleware msg event_data store ctx = (ctx, [], store)"
  using assms by (auto simp: unauthorizedMiddleware_def)

text \<open>
  The second test of the middleware (lines 38-50 of \<^verbatim>\<open>part_001\<close>), with the error
  \<^verbatim>\<open>new Error('foo bar')\<close>, and a server error of the Monday connector: nothing is
  transformed.
\<close>

theorem other_results_pass_through_witness:
  "\<not> is_unauthorized (Error ''foo bar'')
   \<and> unauthorizedMiddleware ''unauthorized'' github_payload github_store
       \<lparr>result = \<lparr>error = Some (Error ''foo bar'')\<rparr>\<rparr>
     = (\<lparr>result = \<lparr>error = Some (Error ''foo bar'')\<rparr>\<rparr>, [], github_store)"
proof -
  let ?ctx = "\<lparr>result = \<lparr>error = Some (Error ''foo bar'')\<rparr>\<rparr>"
  have other: "\<not> is_unauthorized (Error ''foo bar'')"
    by (simp add: is_unauthorized_def)
  then have hyp: "error (result ?ctx) = None
         \<or> (\<exists>e. error (result ?ctx) = Some e \<and> \<not> is_unauthorized e)"
    by simp
  from other_results_pass_through
    [where msg = "''unauthorized''" and event_data = github_payload and store = github_store,
      OF hyp] other
  show ?thesis by simp
qed

text \<open>The first test (lines 26-36): a result without error is not transformed.\<close>

lemma result_without_error_passes_through:
  "unauthorizedMiddleware msg event_data store \<lparr>result = \<lparr>error = None\<rparr>\<rparr>
     = (\<lparr>result = \<lparr>error = None\<rparr>\<rparr>, [], store)"
  by (simp add: unauthorizedMiddleware_def)

end
